theory Spec2Isabelle
  imports Complex_Main "HOL-Library.Sublist"
begin

section \<open>The script \<open>examples/h2o/exec_model.py\<close>\<close>

text \<open>
  The script is fourteen lines of straight-line Python: it initialises the H2O runtime,
  loads a model from a fixed path, builds a one-row frame from a literal list, assigns
  eleven column names, asks the model for a prediction and prints it.

  Everything the script calls lives in the external \<open>h2o\<close> package. The package is
  therefore a parameter of the model: a record of operations over an abstract backend
  state \<open>'w\<close> (the process-wide connection, the file system, the environment, the frames
  held by the server), each of which either raises (\<open>Inl\<close>) or returns (\<open>Inr\<close>) together
  with the backend state it leaves behind. Handles to models, frames and predictions are
  the abstract types \<open>'m\<close>, \<open>'f\<close> and \<open>'p\<close>; exceptions are \<open>'e\<close>.
\<close>

subsection \<open>Data\<close>

text \<open>
  The elements of the literal list of line 7 are Python \<open>int\<close> and \<open>float\<close> literals. A
  float literal is kept as the decimal number that is written in the source; the script
  does no arithmetic on it.
\<close>

datatype pynum = PyInt int | PyFloat rat

record ('w, 'e, 'm, 'f, 'p) h2o =
  init :: "'w \<Rightarrow> 'e + 'w"
  load_model :: "string \<Rightarrow> 'w \<Rightarrow> 'e + 'm \<times> 'w"
  H2OFrame :: "pynum list list \<Rightarrow> 'w \<Rightarrow> 'e + 'f \<times> 'w"
  set_columns :: "'f \<Rightarrow> string list \<Rightarrow> 'w \<Rightarrow> 'e + 'w"
  columns :: "'f \<Rightarrow> 'w \<Rightarrow> string list"
  predict :: "'m \<Rightarrow> 'f \<Rightarrow> 'w \<Rightarrow> 'e + 'p \<times> 'w"
  str :: "'p \<Rightarrow> 'w \<Rightarrow> 'e + string \<times> 'w"

text \<open>
  \<open>set_columns\<close> and \<open>columns\<close> are the setter and the getter of the property
  \<open>H2OFrame.columns\<close>: the assignment of line 10 changes the frame object in place, so the
  handle stays and the backend state changes. \<open>str\<close> is the \<open>__str__\<close> of the prediction,
  which \<open>print\<close> calls.

  What a run of the script does is observed as the sequence of calls it makes, with their
  arguments, the text written to standard output, and how the run ends.
\<close>

datatype ('m, 'f, 'p) call =
    Init
  | LoadModel string
  | NewFrame "pynum list list"
  | SetColumns 'f "string list"
  | Predict 'm 'f
  | Print 'p

datatype 'e outcome = Completed | Uncaught 'e

record ('e, 'm, 'f, 'p) run =
  calls :: "('m, 'f, 'p) call list"
  stdout :: string
  outcome :: "'e outcome"

text \<open>
  An exception that nothing catches ends the interpreter with status 1 (and a traceback on
  standard error); a script that runs to its last line ends with status 0. The exceptions
  \<open>'e\<close> are the errors a call can raise; \<open>SystemExit\<close>, which carries a status of its own,
  is not among them.
\<close>

definition exit_status :: "('e, 'm, 'f, 'p) run \<Rightarrow> nat" where
  "exit_status r = (case outcome r of Completed \<Rightarrow> 0 | Uncaught e \<Rightarrow> 1)"

definition crash :: "('m, 'f, 'p) call list \<Rightarrow> 'e \<Rightarrow> ('e, 'm, 'f, 'p) run" where
  "crash cs e = \<lparr>calls = cs, stdout = [], outcome = Uncaught e\<rparr>"

text \<open>\<open>print(x)\<close> writes \<open>str(x)\<close> and a newline.\<close>

definition print_line :: "string \<Rightarrow> string" where
  "print_line s = s @ [CHR 0x0A]"

subsection \<open>The literals of the script\<close>

definition model_path :: string where
  "model_path =
     ''mlruns/0/models/m-935ff251a94d41899ecbee172e66c5b8/artifacts/model.h2o/DRF_model_python_1751837466102_2''"

definition my_wine :: "pynum list" where
  "my_wine = [PyInt 7, PyFloat 0.27, PyFloat 0.36, PyFloat 20.7, PyFloat 0.045, PyInt 45,
              PyInt 170, PyFloat 1.001, PyInt 3, PyFloat 0.45, PyFloat 8.8]"

definition column_names :: "string list" where
  "column_names = [''fixed acidity'', ''volatile acidity'', ''citric acid'', ''residual sugar'',
                   ''chlorides'', ''free sulfur dioxide'', ''total sulfur dioxide'',
                   ''density'', ''pH'', ''sulphates'', ''alcohol'']"

subsection \<open>The script\<close>

text \<open>
  Lines 3 to 14, statement by statement, with the list bound to \<open>my_wine\<close> in line 7 as an
  argument, so that the pipeline can also be examined on other rows. There is no
  \<open>try\<close> in the script: the first call that raises ends the run.
\<close>

definition exec_model_on ::
    "('w, 'e, 'm, 'f, 'p) h2o \<Rightarrow> pynum list \<Rightarrow> 'w \<Rightarrow> ('e, 'm, 'f, 'p) run" where
  "exec_model_on h2o row w0 =
    (case init h2o w0 of
       Inl e \<Rightarrow> crash [Init] e
     | Inr w1 \<Rightarrow>
    (case load_model h2o model_path w1 of
       Inl e \<Rightarrow> crash [Init, LoadModel model_path] e
     | Inr (model, w2) \<Rightarrow>
    (case H2OFrame h2o [row] w2 of
       Inl e \<Rightarrow> crash [Init, LoadModel model_path, NewFrame [row]] e
     | Inr (wine_frame, w3) \<Rightarrow>
    (case set_columns h2o wine_frame column_names w3 of
       Inl e \<Rightarrow> crash [Init, LoadModel model_path, NewFrame [row],
                       SetColumns wine_frame column_names] e
     | Inr w4 \<Rightarrow>
    (case predict h2o model wine_frame w4 of
       Inl e \<Rightarrow> crash [Init, LoadModel model_path, NewFrame [row],
                       SetColumns wine_frame column_names, Predict model wine_frame] e
     | Inr (predictions, w5) \<Rightarrow>
    (case str h2o predictions w5 of
       Inl e \<Rightarrow> crash [Init, LoadModel model_path, NewFrame [row],
                       SetColumns wine_frame column_names, Predict model wine_frame,
                       Print predictions] e
     | Inr (s, w6) \<Rightarrow>
         \<lparr>calls = [Init, LoadModel model_path, NewFrame [row],
                   SetColumns wine_frame column_names, Predict model wine_frame,
                   Print predictions],
          stdout = print_line s,
          outcome = Completed\<rparr>))))))"

text \<open>The script itself: the pipeline on the list of line 7.\<close>

definition exec_model :: "('w, 'e, 'm, 'f, 'p) h2o \<Rightarrow> 'w \<Rightarrow> ('e, 'm, 'f, 'p) run" where
  "exec_model h2o w0 = exec_model_on h2o my_wine w0"

text \<open>
  The assignment to \<open>wine_frame.columns\<close> is the only statement of the script that writes
  to an object; every other statement calls a function and binds its result to a new name.
\<close>

fun is_assignment :: "('m, 'f, 'p) call \<Rightarrow> bool" where
  "is_assignment (SetColumns f ns) = True"
| "is_assignment c = False"

subsection \<open>What the script leaves behind\<close>

text \<open>
  The script writes no file and keeps nothing but its variables, which end with the
  process. Whatever is left behind is left in the backend, by the calls of the runtime.
  \<open>backend_after_on\<close> follows the same fourteen lines as \<open>exec_model_on\<close> and gives the
  backend state at the end of the run: the state the last call returned or, when a call
  raised, the state in which that call was made (an exception carries no state).
\<close>

definition backend_after_on :: "('w, 'e, 'm, 'f, 'p) h2o \<Rightarrow> pynum list \<Rightarrow> 'w \<Rightarrow> 'w" where
  "backend_after_on h2o row w0 =
    (case init h2o w0 of
       Inl e \<Rightarrow> w0
     | Inr w1 \<Rightarrow>
    (case load_model h2o model_path w1 of
       Inl e \<Rightarrow> w1
     | Inr (model, w2) \<Rightarrow>
    (case H2OFrame h2o [row] w2 of
       Inl e \<Rightarrow> w2
     | Inr (wine_frame, w3) \<Rightarrow>
    (case set_columns h2o wine_frame column_names w3 of
       Inl e \<Rightarrow> w3
     | Inr w4 \<Rightarrow>
    (case predict h2o model wine_frame w4 of
       Inl e \<Rightarrow> w4
     | Inr (predictions, w5) \<Rightarrow>
    (case str h2o predictions w5 of
       Inl e \<Rightarrow> w5
     | Inr (s, w6) \<Rightarrow> w6))))))"

definition backend_after :: "('w, 'e, 'm, 'f, 'p) h2o \<Rightarrow> 'w \<Rightarrow> 'w" where
  "backend_after h2o w0 = backend_after_on h2o my_wine w0"

text \<open>
  What outlives the process is some part \<open>d\<close> of the backend state (the files on disk,
  for a server that is started by \<open>init\<close> and stopped when the process ends).
  \<open>leaves_alone d h2o\<close> says that no call of the runtime that returns changes that part.
\<close>

definition leaves_alone :: "('w \<Rightarrow> 'd) \<Rightarrow> ('w, 'e, 'm, 'f, 'p) h2o \<Rightarrow> bool" where
  "leaves_alone d h2o \<longleftrightarrow>
     (\<forall>w w'. init h2o w = Inr w' \<longrightarrow> d w' = d w) \<and>
     (\<forall>pth w m w'. load_model h2o pth w = Inr (m, w') \<longrightarrow> d w' = d w) \<and>
     (\<forall>rows w f w'. H2OFrame h2o rows w = Inr (f, w') \<longrightarrow> d w' = d w) \<and>
     (\<forall>f ns w w'. set_columns h2o f ns w = Inr w' \<longrightarrow> d w' = d w) \<and>
     (\<forall>m f w p w'. predict h2o m f w = Inr (p, w') \<longrightarrow> d w' = d w) \<and>
     (\<forall>p w t w'. str h2o p w = Inr (t, w') \<longrightarrow> d w' = d w)"

subsection \<open>Runtimes that cannot tell two backend states apart\<close>

text \<open>
  Two invocations of the script start in two backend states. \<open>oblivious R h2o\<close> says that
  the runtime \<open>h2o\<close> does not distinguish states related by \<open>R\<close>: called with the same
  arguments in related states, every operation raises the same exception or returns the
  same value, and leaves related states behind.
\<close>

definition oblivious :: "('w \<Rightarrow> 'w \<Rightarrow> bool) \<Rightarrow> ('w, 'e, 'm, 'f, 'p) h2o \<Rightarrow> bool" where
  "oblivious R h2o \<longleftrightarrow>
     (\<forall>w w'. R w w' \<longrightarrow> rel_sum (=) R (init h2o w) (init h2o w')) \<and>
     (\<forall>pth w w'. R w w' \<longrightarrow>
        rel_sum (=) (rel_prod (=) R) (load_model h2o pth w) (load_model h2o pth w')) \<and>
     (\<forall>rows w w'. R w w' \<longrightarrow>
        rel_sum (=) (rel_prod (=) R) (H2OFrame h2o rows w) (H2OFrame h2o rows w')) \<and>
     (\<forall>f ns w w'. R w w' \<longrightarrow>
        rel_sum (=) R (set_columns h2o f ns w) (set_columns h2o f ns w')) \<and>
     (\<forall>m f w w'. R w w' \<longrightarrow>
        rel_sum (=) (rel_prod (=) R) (predict h2o m f w) (predict h2o m f w')) \<and>
     (\<forall>p w w'. R w w' \<longrightarrow>
        rel_sum (=) (rel_prod (=) R) (str h2o p w) (str h2o p w'))"

section \<open>Concrete runtimes\<close>

text \<open>
  The theorems below hold for every runtime. To see that their hypotheses can be met, and
  that the hypotheses which cannot be dropped are needed, they are also run on small
  concrete runtimes.
\<close>

subsection \<open>A miniature runtime\<close>

text \<open>
  The backend state holds the environment and the command line of the process, the model
  artifacts on disk, whether the server is up, the frames the server holds (data and
  column names, a frame handle being its index), and a seed. \<open>init\<close> needs a Java
  installation named by the environment; \<open>load_model\<close> needs the artifact on disk;
  assigning column names checks their number against the number of columns, as H2O does.
\<close>

datatype demo_error = StartupError | NotConnected | FileNotFound | BadNames | NoSuchFrame

record backend =
  environ :: "(string \<times> string) list"
  argv :: "string list"
  disk :: "string list"
  up :: bool
  frames :: "(pynum list list \<times> string list) list"
  seed :: nat

definition demo_init :: "backend \<Rightarrow> demo_error + backend" where
  "demo_init w = (if map_of (environ w) ''JAVA_HOME'' = None then Inl StartupError
                  else Inr (w\<lparr>up := True\<rparr>))"

definition demo_load_model :: "string \<Rightarrow> backend \<Rightarrow> demo_error + string \<times> backend" where
  "demo_load_model pth w = (if \<not> up w then Inl NotConnected
                            else if pth \<in> set (disk w) then Inr (pth, w)
                            else Inl FileNotFound)"

definition demo_H2OFrame :: "pynum list list \<Rightarrow> backend \<Rightarrow> demo_error + nat \<times> backend" where
  "demo_H2OFrame rows w =
     (if \<not> up w then Inl NotConnected
      else Inr (length (frames w), w\<lparr>frames := frames w @ [(rows, [])]\<rparr>))"

definition ncols :: "pynum list list \<Rightarrow> nat" where
  "ncols rows = (case rows of [] \<Rightarrow> 0 | r # _ \<Rightarrow> length r)"

definition demo_set_columns :: "nat \<Rightarrow> string list \<Rightarrow> backend \<Rightarrow> demo_error + backend" where
  "demo_set_columns f ns w =
     (if f < length (frames w) \<and> length ns = ncols (fst (frames w ! f))
      then Inr (w\<lparr>frames := (frames w)[f := (fst (frames w ! f), ns)]\<rparr>)
      else Inl BadNames)"

definition demo_columns :: "nat \<Rightarrow> backend \<Rightarrow> string list" where
  "demo_columns f w = (if f < length (frames w) then snd (frames w ! f) else [])"

definition demo_predict ::
    "string \<Rightarrow> nat \<Rightarrow> backend \<Rightarrow> demo_error + string list \<times> backend" where
  "demo_predict m f w =
     (if f < length (frames w) then Inr (map (\<lambda>r. ''6'') (fst (frames w ! f)), w)
      else Inl NoSuchFrame)"

definition demo_str :: "string list \<Rightarrow> backend \<Rightarrow> demo_error + string \<times> backend" where
  "demo_str p w = Inr (''predict'' @ concat (map (\<lambda>v. CHR 0x0A # v) p), w)"

definition demo :: "(backend, demo_error, string, nat, string list) h2o" where
  "demo = \<lparr>init = demo_init, load_model = demo_load_model, H2OFrame = demo_H2OFrame,
           set_columns = demo_set_columns, columns = demo_columns,
           predict = demo_predict, str = demo_str\<rparr>"

text \<open>A machine on which the script runs through.\<close>

definition laptop :: backend where
  "laptop = \<lparr>environ = [(''JAVA_HOME'', ''/usr/lib/jvm'')], argv = [''exec_model.py''],
             disk = [model_path], up = False, frames = [], seed = 0\<rparr>"

text \<open>
  The backend states that the run on \<open>laptop\<close> goes through: after \<open>init\<close>, after the
  frame is built, and after the column names are assigned; and the text it prints.
\<close>

definition laptop_up :: backend where
  "laptop_up = laptop\<lparr>up := True\<rparr>"

definition laptop_frame :: backend where
  "laptop_frame = laptop_up\<lparr>frames := [([my_wine], [])]\<rparr>"

definition laptop_named :: backend where
  "laptop_named = laptop_up\<lparr>frames := [([my_wine], column_names)]\<rparr>"

definition demo_text :: string where
  "demo_text = ''predict'' @ CHR 0x0A # ''6''"

text \<open>The same machine without the model artifact, without Java, with another seed, and
  started with another command line.\<close>

definition no_artifact :: backend where
  "no_artifact = laptop\<lparr>disk := []\<rparr>"

definition no_java :: backend where
  "no_java = laptop\<lparr>environ := []\<rparr>"

definition reseeded :: backend where
  "reseeded = laptop\<lparr>seed := 1\<rparr>"

definition verbose :: backend where
  "verbose = laptop\<lparr>argv := [''exec_model.py'', ''--verbose'']\<rparr>"

text \<open>Two backend states that differ at most in the command line.\<close>

definition same_but_argv :: "backend \<Rightarrow> backend \<Rightarrow> bool" where
  "same_but_argv w w' \<longleftrightarrow>
     environ w = environ w' \<and> disk w = disk w' \<and> up w = up w' \<and> frames w = frames w' \<and>
     seed w = seed w'"

text \<open>Two backend states that differ at most in the command line and the seed.\<close>

definition same_but_argv_seed :: "backend \<Rightarrow> backend \<Rightarrow> bool" where
  "same_but_argv_seed w w' \<longleftrightarrow>
     environ w = environ w' \<and> disk w = disk w' \<and> up w = up w' \<and> frames w = frames w'"

text \<open>
  On this machine the server is started by \<open>init\<close> and ends with the process, and the
  frames live in the server. What outlives the process is the rest: the environment, the
  command line, the disk and the seed.
\<close>

definition outlives :: "backend \<Rightarrow> (string \<times> string) list \<times> string list \<times> string list \<times> nat" where
  "outlives w = (environ w, argv w, disk w, seed w)"

subsection \<open>A row of another length\<close>

text \<open>A row of ten values: the row of the script without its last element.\<close>

definition short_row :: "pynum list" where
  "short_row = [PyInt 7, PyFloat 0.27, PyFloat 0.36, PyFloat 20.7, PyFloat 0.045, PyInt 45,
                PyInt 170, PyFloat 1.001, PyInt 3, PyFloat 0.45]"

subsection \<open>Runtimes that raise at a chosen call\<close>

text \<open>
  \<open>failing k\<close> has no state; its calls succeed, except the \<open>k\<close>-th call of the script
  (counted from 0), which raises the exception \<open>k\<close>.
\<close>

definition failing :: "nat \<Rightarrow> (unit, nat, unit, unit, unit) h2o" where
  "failing k =
     \<lparr>init = (\<lambda>w. if k = 0 then Inl 0 else Inr w),
      load_model = (\<lambda>pth w. if k = 1 then Inl 1 else Inr ((), w)),
      H2OFrame = (\<lambda>rows w. if k = 2 then Inl 2 else Inr ((), w)),
      set_columns = (\<lambda>f ns w. if k = 3 then Inl 3 else Inr w),
      columns = (\<lambda>f w. []),
      predict = (\<lambda>m f w. if k = 4 then Inl 4 else Inr ((), w)),
      str = (\<lambda>p w. if k = 5 then Inl 5 else Inr (''ok'', w))\<rparr>"

section \<open>The runs of the script\<close>

text \<open>
  A run takes one of seven courses: one of the six calls raises, or all return. The
  following lemmas give the run for each course, and the case analysis over them.
\<close>

lemma run_init_raises:
  "init h2o w0 = Inl e \<Longrightarrow> exec_model_on h2o row w0 = crash [Init] e"
  by (simp add: exec_model_on_def)

lemma run_load_model_raises:
  "init h2o w0 = Inr w1 \<Longrightarrow> load_model h2o model_path w1 = Inl e \<Longrightarrow>
   exec_model_on h2o row w0 = crash [Init, LoadModel model_path] e"
  by (simp add: exec_model_on_def)

lemma run_H2OFrame_raises:
  "init h2o w0 = Inr w1 \<Longrightarrow> load_model h2o model_path w1 = Inr (model, w2) \<Longrightarrow>
   H2OFrame h2o [row] w2 = Inl e \<Longrightarrow>
   exec_model_on h2o row w0 = crash [Init, LoadModel model_path, NewFrame [row]] e"
  by (simp add: exec_model_on_def)

lemma run_set_columns_raises:
  "init h2o w0 = Inr w1 \<Longrightarrow> load_model h2o model_path w1 = Inr (model, w2) \<Longrightarrow>
   H2OFrame h2o [row] w2 = Inr (frame, w3) \<Longrightarrow>
   set_columns h2o frame column_names w3 = Inl e \<Longrightarrow>
   exec_model_on h2o row w0 =
     crash [Init, LoadModel model_path, NewFrame [row], SetColumns frame column_names] e"
  by (simp add: exec_model_on_def)

lemma run_predict_raises:
  "init h2o w0 = Inr w1 \<Longrightarrow> load_model h2o model_path w1 = Inr (model, w2) \<Longrightarrow>
   H2OFrame h2o [row] w2 = Inr (frame, w3) \<Longrightarrow>
   set_columns h2o frame column_names w3 = Inr w4 \<Longrightarrow>
   predict h2o model frame w4 = Inl e \<Longrightarrow>
   exec_model_on h2o row w0 =
     crash [Init, LoadModel model_path, NewFrame [row], SetColumns frame column_names,
            Predict model frame] e"
  by (simp add: exec_model_on_def)

lemma run_str_raises:
  "init h2o w0 = Inr w1 \<Longrightarrow> load_model h2o model_path w1 = Inr (model, w2) \<Longrightarrow>
   H2OFrame h2o [row] w2 = Inr (frame, w3) \<Longrightarrow>
   set_columns h2o frame column_names w3 = Inr w4 \<Longrightarrow>
   predict h2o model frame w4 = Inr (p, w5) \<Longrightarrow>
   str h2o p w5 = Inl e \<Longrightarrow>
   exec_model_on h2o row w0 =
     crash [Init, LoadModel model_path, NewFrame [row], SetColumns frame column_names,
            Predict model frame, Print p] e"
  by (simp add: exec_model_on_def)

lemma run_completes:
  "init h2o w0 = Inr w1 \<Longrightarrow> load_model h2o model_path w1 = Inr (model, w2) \<Longrightarrow>
   H2OFrame h2o [row] w2 = Inr (frame, w3) \<Longrightarrow>
   set_columns h2o frame column_names w3 = Inr w4 \<Longrightarrow>
   predict h2o model frame w4 = Inr (p, w5) \<Longrightarrow>
   str h2o p w5 = Inr (s, w6) \<Longrightarrow>
   exec_model_on h2o row w0 =
     \<lparr>calls = [Init, LoadModel model_path, NewFrame [row], SetColumns frame column_names,
               Predict model frame, Print p],
      stdout = print_line s, outcome = Completed\<rparr>"
  by (simp add: exec_model_on_def)

lemma exec_model_on_cases
  [case_names init_raises load_model_raises H2OFrame_raises set_columns_raises
              predict_raises str_raises completes]:
  obtains
    e where "init h2o w0 = Inl e"
  | w1 e where "init h2o w0 = Inr w1" "load_model h2o model_path w1 = Inl e"
  | w1 model w2 e where "init h2o w0 = Inr w1" "load_model h2o model_path w1 = Inr (model, w2)"
      "H2OFrame h2o [row] w2 = Inl e"
  | w1 model w2 frame w3 e where "init h2o w0 = Inr w1"
      "load_model h2o model_path w1 = Inr (model, w2)" "H2OFrame h2o [row] w2 = Inr (frame, w3)"
      "set_columns h2o frame column_names w3 = Inl e"
  | w1 model w2 frame w3 w4 e where "init h2o w0 = Inr w1"
      "load_model h2o model_path w1 = Inr (model, w2)" "H2OFrame h2o [row] w2 = Inr (frame, w3)"
      "set_columns h2o frame column_names w3 = Inr w4" "predict h2o model frame w4 = Inl e"
  | w1 model w2 frame w3 w4 p w5 e where "init h2o w0 = Inr w1"
      "load_model h2o model_path w1 = Inr (model, w2)" "H2OFrame h2o [row] w2 = Inr (frame, w3)"
      "set_columns h2o frame column_names w3 = Inr w4" "predict h2o model frame w4 = Inr (p, w5)"
      "str h2o p w5 = Inl e"
  | w1 model w2 frame w3 w4 p w5 s w6 where "init h2o w0 = Inr w1"
      "load_model h2o model_path w1 = Inr (model, w2)" "H2OFrame h2o [row] w2 = Inr (frame, w3)"
      "set_columns h2o frame column_names w3 = Inr w4" "predict h2o model frame w4 = Inr (p, w5)"
      "str h2o p w5 = Inr (s, w6)"
proof (cases "init h2o w0")
  case (Inl e)
  then show ?thesis using that(1) by blast
next
  case i: (Inr w1)
  show ?thesis
  proof (cases "load_model h2o model_path w1")
    case (Inl e)
    then show ?thesis using i that(2) by blast
  next
    case (Inr mw)
    then obtain model w2 where l: "load_model h2o model_path w1 = Inr (model, w2)"
      by (cases mw) simp
    show ?thesis
    proof (cases "H2OFrame h2o [row] w2")
      case (Inl e)
      then show ?thesis using i l that(3) by blast
    next
      case (Inr fw)
      then obtain frame w3 where f: "H2OFrame h2o [row] w2 = Inr (frame, w3)"
        by (cases fw) simp
      show ?thesis
      proof (cases "set_columns h2o frame column_names w3")
        case (Inl e)
        then show ?thesis using i l f that(4) by blast
      next
        case c: (Inr w4)
        show ?thesis
        proof (cases "predict h2o model frame w4")
          case (Inl e)
          then show ?thesis using i l f c that(5) by blast
        next
          case (Inr pw)
          then obtain p w5 where p: "predict h2o model frame w4 = Inr (p, w5)"
            by (cases pw) simp
          show ?thesis
          proof (cases "str h2o p w5")
            case (Inl e)
            then show ?thesis using i l f c p that(6) by blast
          next
            case (Inr sw)
            then obtain s w6 where "str h2o p w5 = Inr (s, w6)"
              by (cases sw) simp
            then show ?thesis using i l f c p that(7) by blast
          qed
        qed
      qed
    qed
  qed
qed

text \<open>The same case analysis, with the run that each course yields.\<close>

lemma exec_model_on_courses
  [case_names init_raises load_model_raises H2OFrame_raises set_columns_raises
              predict_raises str_raises completes]:
  obtains
    e where "init h2o w0 = Inl e"
      "exec_model_on h2o row w0 = crash [Init] e"
  | w1 e where "init h2o w0 = Inr w1" "load_model h2o model_path w1 = Inl e"
      "exec_model_on h2o row w0 = crash [Init, LoadModel model_path] e"
  | w1 model w2 e where "init h2o w0 = Inr w1" "load_model h2o model_path w1 = Inr (model, w2)"
      "H2OFrame h2o [row] w2 = Inl e"
      "exec_model_on h2o row w0 = crash [Init, LoadModel model_path, NewFrame [row]] e"
  | w1 model w2 frame w3 e where "init h2o w0 = Inr w1"
      "load_model h2o model_path w1 = Inr (model, w2)" "H2OFrame h2o [row] w2 = Inr (frame, w3)"
      "set_columns h2o frame column_names w3 = Inl e"
      "exec_model_on h2o row w0 =
         crash [Init, LoadModel model_path, NewFrame [row], SetColumns frame column_names] e"
  | w1 model w2 frame w3 w4 e where "init h2o w0 = Inr w1"
      "load_model h2o model_path w1 = Inr (model, w2)" "H2OFrame h2o [row] w2 = Inr (frame, w3)"
      "set_columns h2o frame column_names w3 = Inr w4" "predict h2o model frame w4 = Inl e"
      "exec_model_on h2o row w0 =
         crash [Init, LoadModel model_path, NewFrame [row], SetColumns frame column_names,
                Predict model frame] e"
  | w1 model w2 frame w3 w4 p w5 e where "init h2o w0 = Inr w1"
      "load_model h2o model_path w1 = Inr (model, w2)" "H2OFrame h2o [row] w2 = Inr (frame, w3)"
      "set_columns h2o frame column_names w3 = Inr w4" "predict h2o model frame w4 = Inr (p, w5)"
      "str h2o p w5 = Inl e"
      "exec_model_on h2o row w0 =
         crash [Init, LoadModel model_path, NewFrame [row], SetColumns frame column_names,
                Predict model frame, Print p] e"
  | w1 model w2 frame w3 w4 p w5 s w6 where "init h2o w0 = Inr w1"
      "load_model h2o model_path w1 = Inr (model, w2)" "H2OFrame h2o [row] w2 = Inr (frame, w3)"
      "set_columns h2o frame column_names w3 = Inr w4" "predict h2o model frame w4 = Inr (p, w5)"
      "str h2o p w5 = Inr (s, w6)"
      "exec_model_on h2o row w0 =
         \<lparr>calls = [Init, LoadModel model_path, NewFrame [row], SetColumns frame column_names,
                   Predict model frame, Print p],
          stdout = print_line s, outcome = Completed\<rparr>"
proof (cases rule: exec_model_on_cases [where h2o = h2o and ?w0.0 = w0 and row = row])
  case (init_raises e)
  show ?thesis
    by (rule that(1) [OF init_raises]) (rule run_init_raises [OF init_raises])
next
  case (load_model_raises w1 e)
  show ?thesis
    by (rule that(2) [OF load_model_raises]) (rule run_load_model_raises [OF load_model_raises])
next
  case (H2OFrame_raises w1 model w2 e)
  show ?thesis
    by (rule that(3) [OF H2OFrame_raises]) (rule run_H2OFrame_raises [OF H2OFrame_raises])
next
  case (set_columns_raises w1 model w2 frame w3 e)
  show ?thesis
    by (rule that(4) [OF set_columns_raises]) (rule run_set_columns_raises [OF set_columns_raises])
next
  case (predict_raises w1 model w2 frame w3 w4 e)
  show ?thesis
    by (rule that(5) [OF predict_raises]) (rule run_predict_raises [OF predict_raises])
next
  case (str_raises w1 model w2 frame w3 w4 p w5 e)
  show ?thesis
    by (rule that(6) [OF str_raises]) (rule run_str_raises [OF str_raises])
next
  case (completes w1 model w2 frame w3 w4 p w5 s w6)
  show ?thesis
    by (rule that(7) [OF completes]) (rule run_completes [OF completes])
qed

lemmas exec_model_courses
  [case_names init_raises load_model_raises H2OFrame_raises set_columns_raises
              predict_raises str_raises completes] =
  exec_model_on_courses [where row = my_wine, folded exec_model_def]

text \<open>
  The script as a whole cannot tell two backend states apart if the runtime cannot: the
  only things the script passes on are its literals and what the runtime returned.
\<close>

lemma case_sum_related:
  assumes "rel_sum (=) R x x'"
    and "\<And>w w'. R w w' \<Longrightarrow> k w = k' w'"
  shows "(case x of Inl e \<Rightarrow> h e | Inr w \<Rightarrow> k w) = (case x' of Inl e \<Rightarrow> h e | Inr w \<Rightarrow> k' w)"
  using assms by (cases x; cases x') simp_all

lemma case_sum_prod_related:
  assumes "rel_sum (=) (rel_prod (=) R) x x'"
    and "\<And>a w w'. R w w' \<Longrightarrow> k a w = k' a w'"
  shows "(case x of Inl e \<Rightarrow> h e | Inr (a, w) \<Rightarrow> k a w) =
         (case x' of Inl e \<Rightarrow> h e | Inr (a, w) \<Rightarrow> k' a w)"
  using assms by (cases x; cases x') auto

lemma exec_model_on_oblivious:
  assumes ob: "oblivious R h2o" and rel: "R w0 w0'"
  shows "exec_model_on h2o row w0 = exec_model_on h2o row w0'"
proof -
  have i: "\<And>w w'. R w w' \<Longrightarrow> rel_sum (=) R (init h2o w) (init h2o w')"
    and l: "\<And>pth w w'. R w w' \<Longrightarrow>
              rel_sum (=) (rel_prod (=) R) (load_model h2o pth w) (load_model h2o pth w')"
    and f: "\<And>rows w w'. R w w' \<Longrightarrow>
              rel_sum (=) (rel_prod (=) R) (H2OFrame h2o rows w) (H2OFrame h2o rows w')"
    and c: "\<And>fr ns w w'. R w w' \<Longrightarrow>
              rel_sum (=) R (set_columns h2o fr ns w) (set_columns h2o fr ns w')"
    and p: "\<And>m fr w w'. R w w' \<Longrightarrow>
              rel_sum (=) (rel_prod (=) R) (predict h2o m fr w) (predict h2o m fr w')"
    and s: "\<And>pr w w'. R w w' \<Longrightarrow>
              rel_sum (=) (rel_prod (=) R) (str h2o pr w) (str h2o pr w')"
    using ob by (simp_all add: oblivious_def)
  show ?thesis
    unfolding exec_model_on_def
    apply (rule case_sum_related [OF i [OF rel]])
    apply (rule case_sum_prod_related [OF l])
     apply assumption
    apply (rule case_sum_prod_related [OF f])
     apply assumption
    apply (rule case_sum_related [OF c])
     apply assumption
    apply (rule case_sum_prod_related [OF p])
     apply assumption
    apply (rule case_sum_prod_related [OF s])
     apply assumption
    apply (rule refl)
    done
qed

subsection \<open>The miniature runtime, step by step\<close>

lemmas demo_defs = demo_def demo_init_def demo_load_model_def demo_H2OFrame_def
  demo_set_columns_def demo_columns_def demo_predict_def demo_str_def ncols_def

lemmas laptop_defs = laptop_def laptop_up_def laptop_frame_def laptop_named_def

lemma demo_init_laptop: "init demo laptop = Inr laptop_up"
  by (simp add: demo_defs laptop_defs)

lemma demo_load_laptop: "load_model demo model_path laptop_up = Inr (model_path, laptop_up)"
  by (simp add: demo_defs laptop_defs)

lemma demo_frame_laptop: "H2OFrame demo [my_wine] laptop_up = Inr (0, laptop_frame)"
  by (simp add: demo_defs laptop_defs)

lemma demo_names_laptop: "set_columns demo 0 column_names laptop_frame = Inr laptop_named"
  by (simp add: demo_defs laptop_defs my_wine_def column_names_def)

lemma demo_predict_laptop: "predict demo model_path 0 laptop_named = Inr ([''6''], laptop_named)"
  by (simp add: demo_defs laptop_defs)

lemma demo_str_laptop: "str demo [''6''] laptop_named = Inr (demo_text, laptop_named)"
  by (simp add: demo_defs demo_text_def)

lemma demo_getter_after_setter:
  "set_columns demo f ns w = Inr w' \<Longrightarrow> columns demo f w' = ns"
  by (auto simp: demo_defs split: if_splits)

lemma demo_laptop_run:
  "exec_model demo laptop =
     \<lparr>calls = [Init, LoadModel model_path, NewFrame [my_wine], SetColumns 0 column_names,
               Predict model_path 0, Print [''6'']],
      stdout = print_line demo_text, outcome = Completed\<rparr>"
  unfolding exec_model_def
  by (rule run_completes [OF demo_init_laptop demo_load_laptop demo_frame_laptop
        demo_names_laptop demo_predict_laptop demo_str_laptop])

lemma oblivious_demo_argv: "oblivious same_but_argv demo"
  unfolding oblivious_def by (auto simp: demo_defs same_but_argv_def)

lemma oblivious_demo_argv_seed: "oblivious same_but_argv_seed demo"
  unfolding oblivious_def by (auto simp: demo_defs same_but_argv_seed_def)

lemma demo_init_no_artifact: "init demo no_artifact = Inr (no_artifact\<lparr>up := True\<rparr>)"
  by (simp add: demo_defs no_artifact_def laptop_def)

lemma demo_load_no_artifact:
  "load_model demo model_path (no_artifact\<lparr>up := True\<rparr>) = Inl FileNotFound"
  by (simp add: demo_defs no_artifact_def laptop_def)

lemma demo_rejects_wrong_length:
  "H2OFrame demo [row] w = Inr (f, w') \<Longrightarrow> length ns \<noteq> length row \<Longrightarrow>
   isl (set_columns demo f ns w')"
  by (auto simp: demo_defs nth_append split: if_splits)

lemma demo_no_java_run: "exec_model demo no_java = crash [Init] StartupError"
  unfolding exec_model_def
  by (rule run_init_raises) (simp add: demo_defs no_java_def laptop_def)

lemma demo_frame_laptop_literal:
  "H2OFrame demo [[PyInt 7, PyFloat 0.27, PyFloat 0.36, PyFloat 20.7, PyFloat 0.045, PyInt 45, PyInt 170,
      PyFloat 1.001, PyInt 3, PyFloat 0.45, PyFloat 8.8]] laptop_up = Inr (0, laptop_frame)"
  using demo_frame_laptop by (simp add: my_wine_def)

lemma demo_names_laptop_literal:
  "set_columns demo 0
     [''fixed acidity'', ''volatile acidity'', ''citric acid'', ''residual sugar'',
      ''chlorides'', ''free sulfur dioxide'', ''total sulfur dioxide'', ''density'',
      ''pH'', ''sulphates'', ''alcohol''] laptop_frame = Inr laptop_named"
  using demo_names_laptop by (simp add: column_names_def)

lemma demo_leaves_alone: "leaves_alone outlives demo"
  unfolding leaves_alone_def by (auto simp: demo_defs outlives_def split: if_splits)

subsection \<open>The backend at the end of a run\<close>

lemma backend_after_on_leaves_alone:
  assumes "leaves_alone d h2o"
  shows "d (backend_after_on h2o row w0) = d w0"
proof -
  have i: "\<And>w w'. init h2o w = Inr w' \<Longrightarrow> d w' = d w"
    and l: "\<And>pth w m w'. load_model h2o pth w = Inr (m, w') \<Longrightarrow> d w' = d w"
    and f: "\<And>rows w fr w'. H2OFrame h2o rows w = Inr (fr, w') \<Longrightarrow> d w' = d w"
    and c: "\<And>fr ns w w'. set_columns h2o fr ns w = Inr w' \<Longrightarrow> d w' = d w"
    and p: "\<And>m fr w pr w'. predict h2o m fr w = Inr (pr, w') \<Longrightarrow> d w' = d w"
    and s: "\<And>pr w t w'. str h2o pr w = Inr (t, w') \<Longrightarrow> d w' = d w"
    using assms by (simp_all add: leaves_alone_def)
  show ?thesis
  proof (cases rule: exec_model_on_cases [where h2o = h2o and ?w0.0 = w0 and row = row])
    case (init_raises e)
    then show ?thesis by (simp add: backend_after_on_def)
  next
    case (load_model_raises w1 e)
    then show ?thesis
      using i [OF load_model_raises(1)] by (simp add: backend_after_on_def)
  next
    case (H2OFrame_raises w1 model w2 e)
    then show ?thesis
      using i [OF H2OFrame_raises(1)] l [OF H2OFrame_raises(2)]
      by (simp add: backend_after_on_def)
  next
    case (set_columns_raises w1 model w2 frame w3 e)
    then show ?thesis
      using i [OF set_columns_raises(1)] l [OF set_columns_raises(2)]
        f [OF set_columns_raises(3)]
      by (simp add: backend_after_on_def)
  next
    case (predict_raises w1 model w2 frame w3 w4 e)
    then show ?thesis
      using i [OF predict_raises(1)] l [OF predict_raises(2)] f [OF predict_raises(3)]
        c [OF predict_raises(4)]
      by (simp add: backend_after_on_def)
  next
    case (str_raises w1 model w2 frame w3 w4 pr w5 e)
    then show ?thesis
      using i [OF str_raises(1)] l [OF str_raises(2)] f [OF str_raises(3)]
        c [OF str_raises(4)] p [OF str_raises(5)]
      by (simp add: backend_after_on_def)
  next
    case (completes w1 model w2 frame w3 w4 pr w5 t w6)
    then show ?thesis
      using i [OF completes(1)] l [OF completes(2)] f [OF completes(3)]
        c [OF completes(4)] p [OF completes(5)] s [OF completes(6)]
      by (simp add: backend_after_on_def)
  qed
qed

subsection \<open>The failing runtimes, step by step\<close>

lemma failing_steps:
  "init (failing k) w = (if k = 0 then Inl 0 else Inr w)"
  "load_model (failing k) pth w = (if k = 1 then Inl 1 else Inr ((), w))"
  "H2OFrame (failing k) rows w = (if k = 2 then Inl 2 else Inr ((), w))"
  "set_columns (failing k) f ns w = (if k = 3 then Inl 3 else Inr w)"
  "predict (failing k) m f w = (if k = 4 then Inl 4 else Inr ((), w))"
  "str (failing k) p w = (if k = 5 then Inl 5 else Inr (''ok'', w))"
  by (simp_all add: failing_def)

section \<open>The claims\<close>

subsection \<open>What is printed\<close>

text \<open>
  Claim C1. For the row \<open>[7, 0.27, 0.36, 20.7, 0.045, 45, 170, 1.001, 3, 0.45, 8.8]\<close> with
  the eleven column names assigned, the script prints exactly what the loaded model's
  \<open>predict\<close> returns for that frame: when the six calls return, the calls of the run are
  these six, on this row and with these names, the object handed to \<open>print\<close> is the
  object \<open>predict\<close> returned for the model that \<open>load_model\<close> returned and the frame that
  \<open>H2OFrame\<close> returned, and standard output holds its \<open>str\<close> followed by a newline,
  nothing else.
\<close>

theorem prints_model_output:
  assumes "init h2o w0 = Inr w1"
    and "load_model h2o model_path w1 = Inr (model, w2)"
    and "H2OFrame h2o
           [[PyInt 7, PyFloat 0.27, PyFloat 0.36, PyFloat 20.7, PyFloat 0.045, PyInt 45, PyInt 170,
             PyFloat 1.001, PyInt 3, PyFloat 0.45, PyFloat 8.8]] w2 = Inr (frame, w3)"
    and "set_columns h2o frame
           [''fixed acidity'', ''volatile acidity'', ''citric acid'', ''residual sugar'',
             ''chlorides'', ''free sulfur dioxide'', ''total sulfur dioxide'', ''density'',
             ''pH'', ''sulphates'', ''alcohol''] w3 = Inr w4"
    and "predict h2o model frame w4 = Inr (p, w5)"
    and "str h2o p w5 = Inr (s, w6)"
  shows "stdout (exec_model h2o w0) = s @ [CHR 0x0A] \<and>
         last (calls (exec_model h2o w0)) = Print p \<and>
         calls (exec_model h2o w0) =
           [Init, LoadModel model_path,
            NewFrame
             [[PyInt 7, PyFloat 0.27, PyFloat 0.36, PyFloat 20.7, PyFloat 0.045, PyInt 45, PyInt 170,
             PyFloat 1.001, PyInt 3, PyFloat 0.45, PyFloat 8.8]],
            SetColumns frame
             [''fixed acidity'', ''volatile acidity'', ''citric acid'', ''residual sugar'',
             ''chlorides'', ''free sulfur dioxide'', ''total sulfur dioxide'', ''density'',
             ''pH'', ''sulphates'', ''alcohol''],
            Predict model frame, Print p] \<and>
         outcome (exec_model h2o w0) = Completed"
proof -
  have fr: "H2OFrame h2o [my_wine] w2 = Inr (frame, w3)"
    using assms(3) by (simp add: my_wine_def)
  have ns: "set_columns h2o frame column_names w3 = Inr w4"
    using assms(4) by (simp add: column_names_def)
  have "exec_model h2o w0 =
      \<lparr>calls = [Init, LoadModel model_path, NewFrame [my_wine], SetColumns frame column_names,
                Predict model frame, Print p],
       stdout = print_line s, outcome = Completed\<rparr>"
    unfolding exec_model_def
    by (rule run_completes [OF assms(1) assms(2) fr ns assms(5) assms(6)])
  then show ?thesis
    by (simp add: print_line_def my_wine_def column_names_def)
qed

theorem prints_model_output_witness:
  "init demo laptop = Inr laptop_up \<and>
   load_model demo model_path laptop_up = Inr (model_path, laptop_up) \<and>
   H2OFrame demo
           [[PyInt 7, PyFloat 0.27, PyFloat 0.36, PyFloat 20.7, PyFloat 0.045, PyInt 45, PyInt 170,
             PyFloat 1.001, PyInt 3, PyFloat 0.45, PyFloat 8.8]] laptop_up = Inr (0, laptop_frame) \<and>
   set_columns demo 0
           [''fixed acidity'', ''volatile acidity'', ''citric acid'', ''residual sugar'',
             ''chlorides'', ''free sulfur dioxide'', ''total sulfur dioxide'', ''density'',
             ''pH'', ''sulphates'', ''alcohol''] laptop_frame = Inr laptop_named \<and>
   predict demo model_path 0 laptop_named = Inr ([''6''], laptop_named) \<and>
   str demo [''6''] laptop_named = Inr (demo_text, laptop_named) \<and>
   stdout (exec_model demo laptop) = demo_text @ [CHR 0x0A] \<and>
   last (calls (exec_model demo laptop)) = Print [''6''] \<and>
   outcome (exec_model demo laptop) = Completed"
  using prints_model_output [OF demo_init_laptop demo_load_laptop demo_frame_laptop_literal
      demo_names_laptop_literal demo_predict_laptop demo_str_laptop]
    demo_init_laptop demo_load_laptop demo_frame_laptop_literal demo_names_laptop_literal
    demo_predict_laptop demo_str_laptop
  by simp

subsection \<open>The column names\<close>

text \<open>
  Claim C2. After the Input Builder step (the frame is built, then the names are assigned)
  the column names of the input row are exactly the eleven names of line 10, in that
  order. Whenever the script reaches \<open>predict\<close> with a frame, that frame was built from
  the row of line 7 and was assigned exactly this list; reading the property back in the
  backend state the assignment left gives the list, for a runtime whose getter returns
  what its setter stored.
\<close>

theorem column_names_after_input_builder:
  assumes reached: "Predict m f \<in> set (calls (exec_model h2o w0))"
    and getter: "\<And>fr ns w w'. set_columns h2o fr ns w = Inr w' \<Longrightarrow> columns h2o fr w' = ns"
  shows "\<exists>w1 w2 w3 w4.
           init h2o w0 = Inr w1 \<and> load_model h2o model_path w1 = Inr (m, w2) \<and>
           H2OFrame h2o [my_wine] w2 = Inr (f, w3) \<and>
           set_columns h2o f
             [''fixed acidity'', ''volatile acidity'', ''citric acid'', ''residual sugar'',
              ''chlorides'', ''free sulfur dioxide'', ''total sulfur dioxide'', ''density'',
              ''pH'', ''sulphates'', ''alcohol''] w3 = Inr w4 \<and>
           columns h2o f w4 =
             [''fixed acidity'', ''volatile acidity'', ''citric acid'', ''residual sugar'',
              ''chlorides'', ''free sulfur dioxide'', ''total sulfur dioxide'', ''density'',
              ''pH'', ''sulphates'', ''alcohol'']"
proof -
  have "\<exists>w1 w2 w3 w4.
           init h2o w0 = Inr w1 \<and> load_model h2o model_path w1 = Inr (m, w2) \<and>
           H2OFrame h2o [my_wine] w2 = Inr (f, w3) \<and>
           set_columns h2o f column_names w3 = Inr w4"
  proof (cases rule: exec_model_courses [where h2o = h2o and ?w0.0 = w0])
    case init_raises
    with reached show ?thesis by (simp add: crash_def)
  next
    case load_model_raises
    with reached show ?thesis by (simp add: crash_def)
  next
    case H2OFrame_raises
    with reached show ?thesis by (simp add: crash_def)
  next
    case set_columns_raises
    with reached show ?thesis by (simp add: crash_def)
  next
    case predict_raises
    with reached show ?thesis by (auto simp: crash_def)
  next
    case str_raises
    with reached show ?thesis by (auto simp: crash_def)
  next
    case completes
    with reached show ?thesis by auto
  qed
  then obtain w1 w2 w3 w4 where chain: "init h2o w0 = Inr w1"
      "load_model h2o model_path w1 = Inr (m, w2)" "H2OFrame h2o [my_wine] w2 = Inr (f, w3)"
      "set_columns h2o f column_names w3 = Inr w4"
    by blast
  from getter [OF chain(4)] have "columns h2o f w4 = column_names" .
  with chain show ?thesis unfolding column_names_def by blast
qed

theorem column_names_after_input_builder_witness:
  "Predict model_path 0 \<in> set (calls (exec_model demo laptop)) \<and>
   (\<exists>w1 w2 w3 w4.
      init demo laptop = Inr w1 \<and> load_model demo model_path w1 = Inr (model_path, w2) \<and>
      H2OFrame demo [my_wine] w2 = Inr (0, w3) \<and>
      set_columns demo 0
             [''fixed acidity'', ''volatile acidity'', ''citric acid'', ''residual sugar'',
              ''chlorides'', ''free sulfur dioxide'', ''total sulfur dioxide'', ''density'',
              ''pH'', ''sulphates'', ''alcohol''] w3 = Inr w4 \<and>
      columns demo 0 w4 =
             [''fixed acidity'', ''volatile acidity'', ''citric acid'', ''residual sugar'',
              ''chlorides'', ''free sulfur dioxide'', ''total sulfur dioxide'', ''density'',
              ''pH'', ''sulphates'', ''alcohol''])"
proof -
  have reached: "Predict model_path 0 \<in> set (calls (exec_model demo laptop))"
    by (simp add: demo_laptop_run)
  moreover have "\<exists>w1 w2 w3 w4.
      init demo laptop = Inr w1 \<and> load_model demo model_path w1 = Inr (model_path, w2) \<and>
      H2OFrame demo [my_wine] w2 = Inr (0, w3) \<and>
      set_columns demo 0
             [''fixed acidity'', ''volatile acidity'', ''citric acid'', ''residual sugar'',
              ''chlorides'', ''free sulfur dioxide'', ''total sulfur dioxide'', ''density'',
              ''pH'', ''sulphates'', ''alcohol''] w3 = Inr w4 \<and>
      columns demo 0 w4 =
             [''fixed acidity'', ''volatile acidity'', ''citric acid'', ''residual sugar'',
              ''chlorides'', ''free sulfur dioxide'', ''total sulfur dioxide'', ''density'',
              ''pH'', ''sulphates'', ''alcohol'']"
    by (rule column_names_after_input_builder [OF reached]) (rule demo_getter_after_setter)
  ultimately show ?thesis by (rule conjI)
qed

subsection \<open>The order of the calls\<close>

text \<open>
  Claim C3. Execution is a single forward pass in a fixed order. The calls of every run are
  an initial segment of the one sequence \<open>init\<close>, \<open>load_model\<close>, \<open>H2OFrame\<close>, assignment
  of the column names, \<open>predict\<close>, \<open>print\<close>, so no call is made twice and none out of
  order. The model is loaded only after \<open>init\<close> has returned; \<open>predict\<close> is invoked only
  after the model was loaded and the frame was built and named, and on exactly these two;
  something is printed only in a run that completes, and a run that completes made each
  of the six calls exactly once.
\<close>

theorem single_forward_pass:
  "(\<exists>m f p. prefix (calls (exec_model h2o w0))
      [Init, LoadModel model_path, NewFrame [my_wine], SetColumns f column_names,
       Predict m f, Print p]) \<and>
   (LoadModel model_path \<in> set (calls (exec_model h2o w0)) \<longrightarrow> (\<exists>w1. init h2o w0 = Inr w1)) \<and>
   (\<forall>m f. Predict m f \<in> set (calls (exec_model h2o w0)) \<longrightarrow>
      (\<exists>w1 w2 w3 w4. init h2o w0 = Inr w1 \<and> load_model h2o model_path w1 = Inr (m, w2) \<and>
         H2OFrame h2o [my_wine] w2 = Inr (f, w3) \<and>
         set_columns h2o f column_names w3 = Inr w4)) \<and>
   (stdout (exec_model h2o w0) \<noteq> [] \<longrightarrow> outcome (exec_model h2o w0) = Completed) \<and>
   (outcome (exec_model h2o w0) = Completed \<longrightarrow>
      (\<exists>m f p. calls (exec_model h2o w0) =
         [Init, LoadModel model_path, NewFrame [my_wine], SetColumns f column_names,
          Predict m f, Print p]))"
proof (cases rule: exec_model_courses [where h2o = h2o and ?w0.0 = w0])
  case init_raises
  then show ?thesis by (simp add: crash_def)
next
  case load_model_raises
  then show ?thesis by (simp add: crash_def)
next
  case H2OFrame_raises
  then show ?thesis by (simp add: crash_def)
next
  case set_columns_raises
  then show ?thesis by (simp add: crash_def)
next
  case predict_raises
  then show ?thesis by (simp add: crash_def)
next
  case str_raises
  then show ?thesis by (simp add: crash_def)
next
  case completes
  then show ?thesis by simp
qed

theorem single_forward_pass_witness:
  "LoadModel model_path \<in> set (calls (exec_model demo laptop)) \<and>
   Predict model_path 0 \<in> set (calls (exec_model demo laptop)) \<and>
   stdout (exec_model demo laptop) \<noteq> [] \<and>
   outcome (exec_model demo laptop) = Completed \<and>
   (\<exists>w1. init demo laptop = Inr w1) \<and>
   (\<exists>m f p. calls (exec_model demo laptop) =
      [Init, LoadModel model_path, NewFrame [my_wine], SetColumns f column_names,
       Predict m f, Print p])"
proof -
  have "LoadModel model_path \<in> set (calls (exec_model demo laptop))"
    and "Predict model_path 0 \<in> set (calls (exec_model demo laptop))"
    and "stdout (exec_model demo laptop) \<noteq> []"
    and "outcome (exec_model demo laptop) = Completed"
    by (simp_all add: demo_laptop_run print_line_def)
  with single_forward_pass [where h2o = demo and ?w0.0 = laptop]
  show ?thesis by blast
qed

subsection \<open>A model that cannot be loaded\<close>

text \<open>
  Claim C4. If \<open>load_model\<close> raises (as it does when the artifact path does not exist), the
  script ends there: the run made the two calls \<open>init\<close> and \<open>load_model\<close> and no other,
  \<open>predict\<close> is never invoked, nothing is printed, and the exception is uncaught.
\<close>

theorem load_failure_stops_script:
  assumes "init h2o w0 = Inr w1" and "load_model h2o model_path w1 = Inl e"
  shows "calls (exec_model h2o w0) = [Init, LoadModel model_path] \<and>
         outcome (exec_model h2o w0) = Uncaught e \<and>
         stdout (exec_model h2o w0) = [] \<and>
         (\<forall>m f. Predict m f \<notin> set (calls (exec_model h2o w0))) \<and>
         (\<forall>p. Print p \<notin> set (calls (exec_model h2o w0)))"
proof -
  have "exec_model h2o w0 = crash [Init, LoadModel model_path] e"
    unfolding exec_model_def using assms by (rule run_load_model_raises)
  then show ?thesis by (simp add: crash_def)
qed

theorem load_failure_stops_script_witness:
  "init demo no_artifact = Inr (no_artifact\<lparr>up := True\<rparr>) \<and>
   load_model demo model_path (no_artifact\<lparr>up := True\<rparr>) = Inl FileNotFound \<and>
   calls (exec_model demo no_artifact) = [Init, LoadModel model_path] \<and>
   outcome (exec_model demo no_artifact) = Uncaught FileNotFound \<and>
   stdout (exec_model demo no_artifact) = []"
  using load_failure_stops_script [OF demo_init_no_artifact demo_load_no_artifact]
    demo_init_no_artifact demo_load_no_artifact
  by simp

subsection \<open>A row of the wrong length\<close>

text \<open>
  Claim C5. For every input row with fewer or more than eleven values the Input Builder
  step fails with a surfaced error; the row is never silently truncated or padded. The
  script has no length check of its own: it hands the row to \<open>H2OFrame\<close> as it is, assigns
  all eleven names, and relies on the library to fail, as the spec says. The library's
  check is the hypothesis: the runtime rejects a list of names whose length differs from
  the length of the row the frame was built from (H2O's column setter does). Then, for
  every such row, the run fails in the Input Builder step (in \<open>H2OFrame\<close> or in the
  assignment of the names), the exception is uncaught and the exit status is 1,
  \<open>predict\<close> is never invoked and nothing is printed.
\<close>

theorem wrong_length_row_surfaces:
  assumes len: "length row \<noteq> 11"
    and strict: "\<And>f w w' ns. H2OFrame h2o [row] w = Inr (f, w') \<Longrightarrow> length ns \<noteq> length row \<Longrightarrow>
                   isl (set_columns h2o f ns w')"
    and i: "init h2o w0 = Inr w1"
    and l: "load_model h2o model_path w1 = Inr (model, w2)"
  shows "(\<exists>e. outcome (exec_model_on h2o row w0) = Uncaught e) \<and>
         exit_status (exec_model_on h2o row w0) = 1 \<and>
         stdout (exec_model_on h2o row w0) = [] \<and>
         (\<forall>m f. Predict m f \<notin> set (calls (exec_model_on h2o row w0))) \<and>
         (calls (exec_model_on h2o row w0) = [Init, LoadModel model_path, NewFrame [row]] \<or>
          (\<exists>f. calls (exec_model_on h2o row w0) =
             [Init, LoadModel model_path, NewFrame [row], SetColumns f column_names]))"
proof -
  have rejected: "isl (set_columns h2o f column_names w')"
    if "H2OFrame h2o [row] w = Inr (f, w')" for f w w'
    using strict [OF that, of column_names] len by (simp add: column_names_def)
  show ?thesis
  proof (cases rule: exec_model_on_courses [where h2o = h2o and ?w0.0 = w0 and row = row])
    case init_raises
    with i show ?thesis by simp
  next
    case load_model_raises
    with i l show ?thesis by simp
  next
    case H2OFrame_raises
    then show ?thesis by (simp add: crash_def exit_status_def)
  next
    case set_columns_raises
    then show ?thesis by (simp add: crash_def exit_status_def)
  next
    case (predict_raises w1 model w2 frame w3 w4 e)
    with rejected [of w2 frame w3] show ?thesis by simp
  next
    case (str_raises w1 model w2 frame w3 w4 p w5 e)
    with rejected [of w2 frame w3] show ?thesis by simp
  next
    case (completes w1 model w2 frame w3 w4 p w5 s w6)
    with rejected [of w2 frame w3] show ?thesis by simp
  qed
qed

theorem wrong_length_row_surfaces_witness:
  "length short_row \<noteq> 11 \<and>
   init demo laptop = Inr laptop_up \<and>
   load_model demo model_path laptop_up = Inr (model_path, laptop_up) \<and>
   (\<exists>e. outcome (exec_model_on demo short_row laptop) = Uncaught e) \<and>
   exit_status (exec_model_on demo short_row laptop) = 1 \<and>
   stdout (exec_model_on demo short_row laptop) = [] \<and>
   (calls (exec_model_on demo short_row laptop) =
      [Init, LoadModel model_path, NewFrame [short_row]] \<or>
    (\<exists>f. calls (exec_model_on demo short_row laptop) =
       [Init, LoadModel model_path, NewFrame [short_row], SetColumns f column_names]))"
proof -
  have len: "length short_row \<noteq> 11"
    by (simp add: short_row_def)
  have "(\<exists>e. outcome (exec_model_on demo short_row laptop) = Uncaught e) \<and>
      exit_status (exec_model_on demo short_row laptop) = 1 \<and>
      stdout (exec_model_on demo short_row laptop) = [] \<and>
      (\<forall>m f. Predict m f \<notin> set (calls (exec_model_on demo short_row laptop))) \<and>
      (calls (exec_model_on demo short_row laptop) =
         [Init, LoadModel model_path, NewFrame [short_row]] \<or>
       (\<exists>f. calls (exec_model_on demo short_row laptop) =
          [Init, LoadModel model_path, NewFrame [short_row], SetColumns f column_names]))"
    by (rule wrong_length_row_surfaces [OF len _ demo_init_laptop demo_load_laptop])
       (rule demo_rejects_wrong_length)
  with len demo_init_laptop demo_load_laptop show ?thesis by blast
qed

subsection \<open>No error handling\<close>

text \<open>
  Claim C6. The script handles no error. Whichever of its calls raises (\<open>init\<close>,
  \<open>load_model\<close>, \<open>H2OFrame\<close>, the assignment of the names, \<open>predict\<close>, or the \<open>str\<close> that
  \<open>print\<close> calls), the run ends with that very exception uncaught, right after the call
  that raised: no later call is made, the failed call is not repeated, nothing is
  printed, and the exit status is 1.
\<close>

theorem failures_propagate:
  "(init h2o w0 = Inl e \<longrightarrow> exec_model h2o w0 = crash [Init] e) \<and>
   (init h2o w0 = Inr w1 \<and> load_model h2o model_path w1 = Inl e \<longrightarrow>
      exec_model h2o w0 = crash [Init, LoadModel model_path] e) \<and>
   (init h2o w0 = Inr w1 \<and> load_model h2o model_path w1 = Inr (model, w2) \<and>
    H2OFrame h2o [my_wine] w2 = Inl e \<longrightarrow>
      exec_model h2o w0 = crash [Init, LoadModel model_path, NewFrame [my_wine]] e) \<and>
   (init h2o w0 = Inr w1 \<and> load_model h2o model_path w1 = Inr (model, w2) \<and>
    H2OFrame h2o [my_wine] w2 = Inr (frame, w3) \<and>
    set_columns h2o frame column_names w3 = Inl e \<longrightarrow>
      exec_model h2o w0 =
        crash [Init, LoadModel model_path, NewFrame [my_wine],
               SetColumns frame column_names] e) \<and>
   (init h2o w0 = Inr w1 \<and> load_model h2o model_path w1 = Inr (model, w2) \<and>
    H2OFrame h2o [my_wine] w2 = Inr (frame, w3) \<and>
    set_columns h2o frame column_names w3 = Inr w4 \<and>
    predict h2o model frame w4 = Inl e \<longrightarrow>
      exec_model h2o w0 =
        crash [Init, LoadModel model_path, NewFrame [my_wine],
               SetColumns frame column_names, Predict model frame] e) \<and>
   (init h2o w0 = Inr w1 \<and> load_model h2o model_path w1 = Inr (model, w2) \<and>
    H2OFrame h2o [my_wine] w2 = Inr (frame, w3) \<and>
    set_columns h2o frame column_names w3 = Inr w4 \<and>
    predict h2o model frame w4 = Inr (p, w5) \<and> str h2o p w5 = Inl e \<longrightarrow>
      exec_model h2o w0 =
        crash [Init, LoadModel model_path, NewFrame [my_wine],
               SetColumns frame column_names, Predict model frame, Print p] e) \<and>
   (\<forall>e'. outcome (exec_model h2o w0) = Uncaught e' \<longrightarrow>
      exit_status (exec_model h2o w0) = 1 \<and> stdout (exec_model h2o w0) = []) \<and>
   exit_status (crash cs e) = 1 \<and> stdout (crash cs e) = [] \<and> outcome (crash cs e) = Uncaught e"
proof -
  have "\<forall>e'. outcome (exec_model h2o w0) = Uncaught e' \<longrightarrow>
      exit_status (exec_model h2o w0) = 1 \<and> stdout (exec_model h2o w0) = []"
    by (cases rule: exec_model_courses [where h2o = h2o and ?w0.0 = w0])
       (simp_all add: crash_def exit_status_def)
  then show ?thesis
    unfolding exec_model_def
    by (simp add: run_init_raises run_load_model_raises run_H2OFrame_raises
        run_set_columns_raises run_predict_raises run_str_raises crash_def exit_status_def)
qed

theorem failures_propagate_witness:
  "exec_model (failing 0) () = crash [Init] 0 \<and>
   exec_model (failing 1) () = crash [Init, LoadModel model_path] 1 \<and>
   exec_model (failing 2) () = crash [Init, LoadModel model_path, NewFrame [my_wine]] 2 \<and>
   exec_model (failing 3) () =
     crash [Init, LoadModel model_path, NewFrame [my_wine], SetColumns () column_names] 3 \<and>
   exec_model (failing 4) () =
     crash [Init, LoadModel model_path, NewFrame [my_wine], SetColumns () column_names,
            Predict () ()] 4 \<and>
   exec_model (failing 5) () =
     crash [Init, LoadModel model_path, NewFrame [my_wine], SetColumns () column_names,
            Predict () (), Print ()] 5 \<and>
   exit_status (exec_model (failing 5) ()) = 1 \<and> stdout (exec_model (failing 5) ()) = []"
proof -
  note fp = failures_propagate [where ?w0.0 = "()" and ?w1.0 = "()" and ?w2.0 = "()"
      and ?w3.0 = "()" and ?w4.0 = "()" and ?w5.0 = "()" and model = "()" and frame = "()"
      and p = "()" and cs = "[]"]
  have "init (failing 0) () = Inl 0"
    by (simp add: failing_steps)
  with fp [where h2o = "failing 0" and e = 0]
  have c0: "exec_model (failing 0) () = crash [Init] 0"
    by blast
  have "init (failing 1) () = Inr () \<and> load_model (failing 1) model_path () = Inl 1"
    by (simp add: failing_steps)
  with fp [where h2o = "failing 1" and e = 1]
  have c1: "exec_model (failing 1) () = crash [Init, LoadModel model_path] 1"
    by blast
  have "init (failing 2) () = Inr () \<and> load_model (failing 2) model_path () = Inr ((), ()) \<and>
      H2OFrame (failing 2) [my_wine] () = Inl 2"
    by (simp add: failing_steps)
  with fp [where h2o = "failing 2" and e = 2]
  have c2: "exec_model (failing 2) () =
      crash [Init, LoadModel model_path, NewFrame [my_wine]] 2"
    by blast
  have "init (failing 3) () = Inr () \<and> load_model (failing 3) model_path () = Inr ((), ()) \<and>
      H2OFrame (failing 3) [my_wine] () = Inr ((), ()) \<and>
      set_columns (failing 3) () column_names () = Inl 3"
    by (simp add: failing_steps)
  with fp [where h2o = "failing 3" and e = 3]
  have c3: "exec_model (failing 3) () =
      crash [Init, LoadModel model_path, NewFrame [my_wine], SetColumns () column_names] 3"
    by blast
  have "init (failing 4) () = Inr () \<and> load_model (failing 4) model_path () = Inr ((), ()) \<and>
      H2OFrame (failing 4) [my_wine] () = Inr ((), ()) \<and>
      set_columns (failing 4) () column_names () = Inr () \<and>
      predict (failing 4) () () () = Inl 4"
    by (simp add: failing_steps)
  with fp [where h2o = "failing 4" and e = 4]
  have c4: "exec_model (failing 4) () =
      crash [Init, LoadModel model_path, NewFrame [my_wine], SetColumns () column_names,
             Predict () ()] 4"
    by blast
  have "init (failing 5) () = Inr () \<and> load_model (failing 5) model_path () = Inr ((), ()) \<and>
      H2OFrame (failing 5) [my_wine] () = Inr ((), ()) \<and>
      set_columns (failing 5) () column_names () = Inr () \<and>
      predict (failing 5) () () () = Inr ((), ()) \<and> str (failing 5) () () = Inl 5"
    by (simp add: failing_steps)
  with fp [where h2o = "failing 5" and e = 5]
  have c5: "exec_model (failing 5) () =
      crash [Init, LoadModel model_path, NewFrame [my_wine], SetColumns () column_names,
             Predict () (), Print ()] 5"
    by blast
  have "outcome (exec_model (failing 5) ()) = Uncaught 5"
    by (simp add: c5 crash_def)
  with fp [where h2o = "failing 5" and e = 5]
  have c6: "exit_status (exec_model (failing 5) ()) = 1 \<and> stdout (exec_model (failing 5) ()) = []"
    by blast
  from c0 c1 c2 c3 c4 c5 c6 show ?thesis by blast
qed

subsection \<open>No mutation after construction\<close>

text \<open>
  Claim C7. Neither entity is modified after it is constructed, and no state persists
  beyond the run. Once the input row is built and named, the very next call is
  \<open>predict\<close>, on that frame and in the backend state the assignment of the names left;
  the assignment of the names is the only write the script ever makes. Once \<open>predict\<close>
  has returned, the very next call is \<open>print\<close>, on the object \<open>predict\<close> returned and in
  the state \<open>predict\<close> left, and the backend state at the end of the run is the state
  that last call left: the script changes nothing afterwards. The script stores nothing
  itself, so whatever part of the backend outlives the process and is left alone by the
  calls of the runtime is, after the run, what it was before the run.
\<close>

theorem no_mutation_after_construction:
  "(init h2o w0 = Inr w1 \<and> load_model h2o model_path w1 = Inr (model, w2) \<and>
    H2OFrame h2o [my_wine] w2 = Inr (frame, w3) \<and>
    set_columns h2o frame column_names w3 = Inr w4 \<longrightarrow>
      (\<forall>e. predict h2o model frame w4 = Inl e \<longrightarrow>
         exec_model h2o w0 =
           crash [Init, LoadModel model_path, NewFrame [my_wine],
                  SetColumns frame column_names, Predict model frame] e \<and>
         backend_after h2o w0 = w4) \<and>
      (\<forall>p w5. predict h2o model frame w4 = Inr (p, w5) \<longrightarrow>
         calls (exec_model h2o w0) =
           [Init, LoadModel model_path, NewFrame [my_wine], SetColumns frame column_names,
            Predict model frame, Print p] \<and>
         stdout (exec_model h2o w0) =
           (case str h2o p w5 of Inl e \<Rightarrow> [] | Inr (s, w6) \<Rightarrow> s @ [CHR 0x0A]) \<and>
         backend_after h2o w0 = (case str h2o p w5 of Inl e \<Rightarrow> w5 | Inr (s, w6) \<Rightarrow> w6)) \<and>
      filter is_assignment (calls (exec_model h2o w0)) = [SetColumns frame column_names]) \<and>
   (leaves_alone d h2o \<longrightarrow> d (backend_after h2o w0) = d w0)"
proof (rule conjI)
  show "init h2o w0 = Inr w1 \<and> load_model h2o model_path w1 = Inr (model, w2) \<and>
    H2OFrame h2o [my_wine] w2 = Inr (frame, w3) \<and>
    set_columns h2o frame column_names w3 = Inr w4 \<longrightarrow>
      (\<forall>e. predict h2o model frame w4 = Inl e \<longrightarrow>
         exec_model h2o w0 =
           crash [Init, LoadModel model_path, NewFrame [my_wine],
                  SetColumns frame column_names, Predict model frame] e \<and>
         backend_after h2o w0 = w4) \<and>
      (\<forall>p w5. predict h2o model frame w4 = Inr (p, w5) \<longrightarrow>
         calls (exec_model h2o w0) =
           [Init, LoadModel model_path, NewFrame [my_wine], SetColumns frame column_names,
            Predict model frame, Print p] \<and>
         stdout (exec_model h2o w0) =
           (case str h2o p w5 of Inl e \<Rightarrow> [] | Inr (s, w6) \<Rightarrow> s @ [CHR 0x0A]) \<and>
         backend_after h2o w0 = (case str h2o p w5 of Inl e \<Rightarrow> w5 | Inr (s, w6) \<Rightarrow> w6)) \<and>
      filter is_assignment (calls (exec_model h2o w0)) = [SetColumns frame column_names]"
  proof (rule impI)
    assume "init h2o w0 = Inr w1 \<and> load_model h2o model_path w1 = Inr (model, w2) \<and>
      H2OFrame h2o [my_wine] w2 = Inr (frame, w3) \<and>
      set_columns h2o frame column_names w3 = Inr w4"
    then have built: "init h2o w0 = Inr w1" "load_model h2o model_path w1 = Inr (model, w2)"
        "H2OFrame h2o [my_wine] w2 = Inr (frame, w3)"
        "set_columns h2o frame column_names w3 = Inr w4"
      by simp_all
    note after = backend_after_def backend_after_on_def
    show "(\<forall>e. predict h2o model frame w4 = Inl e \<longrightarrow>
         exec_model h2o w0 =
           crash [Init, LoadModel model_path, NewFrame [my_wine],
                  SetColumns frame column_names, Predict model frame] e \<and>
         backend_after h2o w0 = w4) \<and>
      (\<forall>p w5. predict h2o model frame w4 = Inr (p, w5) \<longrightarrow>
         calls (exec_model h2o w0) =
           [Init, LoadModel model_path, NewFrame [my_wine], SetColumns frame column_names,
            Predict model frame, Print p] \<and>
         stdout (exec_model h2o w0) =
           (case str h2o p w5 of Inl e \<Rightarrow> [] | Inr (s, w6) \<Rightarrow> s @ [CHR 0x0A]) \<and>
         backend_after h2o w0 = (case str h2o p w5 of Inl e \<Rightarrow> w5 | Inr (s, w6) \<Rightarrow> w6)) \<and>
      filter is_assignment (calls (exec_model h2o w0)) = [SetColumns frame column_names]"
    proof (cases rule: exec_model_courses [where h2o = h2o and ?w0.0 = w0])
      case init_raises
      with built show ?thesis by simp
    next
      case load_model_raises
      with built show ?thesis by simp
    next
      case H2OFrame_raises
      with built show ?thesis by simp
    next
      case set_columns_raises
      with built show ?thesis by simp
    next
      case predict_raises
      with built show ?thesis by (simp add: crash_def after)
    next
      case str_raises
      with built show ?thesis by (simp add: crash_def after)
    next
      case completes
      with built show ?thesis by (simp add: print_line_def after)
    qed
  qed
next
  show "leaves_alone d h2o \<longrightarrow> d (backend_after h2o w0) = d w0"
    unfolding backend_after_def by (simp add: backend_after_on_leaves_alone)
qed

theorem no_mutation_after_construction_witness:
  "init demo laptop = Inr laptop_up \<and>
   load_model demo model_path laptop_up = Inr (model_path, laptop_up) \<and>
   H2OFrame demo [my_wine] laptop_up = Inr (0, laptop_frame) \<and>
   set_columns demo 0 column_names laptop_frame = Inr laptop_named \<and>
   predict demo model_path 0 laptop_named = Inr ([''6''], laptop_named) \<and>
   leaves_alone outlives demo \<and>
   calls (exec_model demo laptop) =
     [Init, LoadModel model_path, NewFrame [my_wine], SetColumns 0 column_names,
      Predict model_path 0, Print [''6'']] \<and>
   stdout (exec_model demo laptop) = demo_text @ [CHR 0x0A] \<and>
   filter is_assignment (calls (exec_model demo laptop)) = [SetColumns 0 column_names] \<and>
   backend_after demo laptop = laptop_named \<and>
   outlives (backend_after demo laptop) = outlives laptop"
proof -
  note built = demo_init_laptop demo_load_laptop demo_frame_laptop demo_names_laptop
  note nm = no_mutation_after_construction [where h2o = demo and ?w0.0 = laptop
      and ?w1.0 = laptop_up and model = model_path and ?w2.0 = laptop_up and frame = 0
      and ?w3.0 = laptop_frame and ?w4.0 = laptop_named and d = outlives]
  have run: "calls (exec_model demo laptop) =
     [Init, LoadModel model_path, NewFrame [my_wine], SetColumns 0 column_names,
      Predict model_path 0, Print [''6'']] \<and>
   stdout (exec_model demo laptop) = demo_text @ [CHR 0x0A] \<and>
   filter is_assignment (calls (exec_model demo laptop)) = [SetColumns 0 column_names] \<and>
   backend_after demo laptop = laptop_named"
    using nm built demo_predict_laptop demo_str_laptop by simp
  have kept: "outlives (backend_after demo laptop) = outlives laptop"
    using nm demo_leaves_alone by blast
  from run kept built demo_predict_laptop demo_leaves_alone show ?thesis
    by blast
qed

subsection \<open>Two invocations\<close>

text \<open>
  Claim C8. For a fixed valid model artifact and the fixed row of eleven values with the
  column names assigned, any two invocations produce the same prediction. Determinism is
  assumed from the underlying model, as the spec says: the hypothesis is that the runtime
  cannot tell the backend states of the two invocations apart, that is, its calls return
  the same results in both. Then the two invocations print the same text and end the same
  way; and when in one of them the model loads, the row is built and named, \<open>predict\<close>
  returns \<open>p\<close> and \<open>str\<close> renders it as \<open>s\<close>, then the other one hands the same \<open>p\<close> to
  \<open>print\<close> and both print \<open>s\<close> followed by a newline.
\<close>

theorem same_prediction_when_runtime_oblivious:
  assumes "oblivious R h2o" and "R w0 w0'"
  shows "stdout (exec_model h2o w0) = stdout (exec_model h2o w0') \<and>
         outcome (exec_model h2o w0) = outcome (exec_model h2o w0') \<and>
   (init h2o w0 = Inr w1 \<and> load_model h2o model_path w1 = Inr (model, w2) \<and>
    H2OFrame h2o
           [[PyInt 7, PyFloat 0.27, PyFloat 0.36, PyFloat 20.7, PyFloat 0.045, PyInt 45, PyInt 170,
             PyFloat 1.001, PyInt 3, PyFloat 0.45, PyFloat 8.8]] w2 = Inr (frame, w3) \<and>
    set_columns h2o frame
           [''fixed acidity'', ''volatile acidity'', ''citric acid'', ''residual sugar'',
             ''chlorides'', ''free sulfur dioxide'', ''total sulfur dioxide'', ''density'',
             ''pH'', ''sulphates'', ''alcohol''] w3 = Inr w4 \<and>
    predict h2o model frame w4 = Inr (p, w5) \<and> str h2o p w5 = Inr (s, w6) \<longrightarrow>
      last (calls (exec_model h2o w0')) = Print p \<and>
      stdout (exec_model h2o w0') = s @ [CHR 0x0A] \<and>
      stdout (exec_model h2o w0) = s @ [CHR 0x0A] \<and>
      outcome (exec_model h2o w0') = Completed)"
proof -
  have same: "exec_model h2o w0' = exec_model h2o w0"
    unfolding exec_model_def using exec_model_on_oblivious [OF assms] by simp
  have "last (calls (exec_model h2o w0)) = Print p \<and>
      stdout (exec_model h2o w0) = s @ [CHR 0x0A] \<and>
      outcome (exec_model h2o w0) = Completed"
    if "init h2o w0 = Inr w1 \<and> load_model h2o model_path w1 = Inr (model, w2) \<and>
    H2OFrame h2o
           [[PyInt 7, PyFloat 0.27, PyFloat 0.36, PyFloat 20.7, PyFloat 0.045, PyInt 45, PyInt 170,
             PyFloat 1.001, PyInt 3, PyFloat 0.45, PyFloat 8.8]] w2 = Inr (frame, w3) \<and>
    set_columns h2o frame
           [''fixed acidity'', ''volatile acidity'', ''citric acid'', ''residual sugar'',
             ''chlorides'', ''free sulfur dioxide'', ''total sulfur dioxide'', ''density'',
             ''pH'', ''sulphates'', ''alcohol''] w3 = Inr w4 \<and>
    predict h2o model frame w4 = Inr (p, w5) \<and> str h2o p w5 = Inr (s, w6)"
  proof -
    from that have fr: "H2OFrame h2o [my_wine] w2 = Inr (frame, w3)"
      and ns: "set_columns h2o frame column_names w3 = Inr w4"
      by (simp_all add: my_wine_def column_names_def)
    from that have rest: "init h2o w0 = Inr w1" "load_model h2o model_path w1 = Inr (model, w2)"
        "predict h2o model frame w4 = Inr (p, w5)" "str h2o p w5 = Inr (s, w6)"
      by simp_all
    have "exec_model h2o w0 =
        \<lparr>calls = [Init, LoadModel model_path, NewFrame [my_wine], SetColumns frame column_names,
                  Predict model frame, Print p],
         stdout = print_line s, outcome = Completed\<rparr>"
      unfolding exec_model_def
      by (rule run_completes [OF rest(1) rest(2) fr ns rest(3) rest(4)])
    then show ?thesis by (simp add: print_line_def)
  qed
  with same show ?thesis by simp
qed

theorem same_prediction_when_runtime_oblivious_witness:
  "oblivious same_but_argv_seed demo \<and> same_but_argv_seed laptop reseeded \<and>
   init demo laptop = Inr laptop_up \<and>
   load_model demo model_path laptop_up = Inr (model_path, laptop_up) \<and>
   H2OFrame demo
           [[PyInt 7, PyFloat 0.27, PyFloat 0.36, PyFloat 20.7, PyFloat 0.045, PyInt 45, PyInt 170,
             PyFloat 1.001, PyInt 3, PyFloat 0.45, PyFloat 8.8]] laptop_up = Inr (0, laptop_frame) \<and>
   set_columns demo 0
           [''fixed acidity'', ''volatile acidity'', ''citric acid'', ''residual sugar'',
             ''chlorides'', ''free sulfur dioxide'', ''total sulfur dioxide'', ''density'',
             ''pH'', ''sulphates'', ''alcohol''] laptop_frame = Inr laptop_named \<and>
   predict demo model_path 0 laptop_named = Inr ([''6''], laptop_named) \<and>
   str demo [''6''] laptop_named = Inr (demo_text, laptop_named) \<and>
   stdout (exec_model demo laptop) = stdout (exec_model demo reseeded) \<and>
   outcome (exec_model demo laptop) = outcome (exec_model demo reseeded) \<and>
   last (calls (exec_model demo reseeded)) = Print [''6''] \<and>
   stdout (exec_model demo reseeded) = demo_text @ [CHR 0x0A] \<and>
   outcome (exec_model demo reseeded) = Completed"
proof -
  have rel: "same_but_argv_seed laptop reseeded"
    by (simp add: same_but_argv_seed_def reseeded_def)
  from same_prediction_when_runtime_oblivious [OF oblivious_demo_argv_seed rel,
      where ?w1.0 = laptop_up and model = model_path and ?w2.0 = laptop_up and frame = 0
      and ?w3.0 = laptop_frame and ?w4.0 = laptop_named and p = "[''6'']"
      and ?w5.0 = laptop_named and s = demo_text and ?w6.0 = laptop_named]
    oblivious_demo_argv_seed rel demo_init_laptop demo_load_laptop demo_frame_laptop_literal
    demo_names_laptop_literal demo_predict_laptop demo_str_laptop
  show ?thesis by simp
qed

subsection \<open>Command line and environment\<close>

text \<open>
  Claim C9, as stated: two runs that differ only in command-line arguments or environment
  variables perform the same sequence of calls. The script reads neither, but the runtime
  it calls may: on the miniature runtime, whose \<open>init\<close> looks for Java in the environment,
  the run on the laptop makes all six calls and the run on the same laptop with an empty
  environment stops after \<open>init\<close>.
\<close>

theorem environment_changes_the_calls:
  "no_java = laptop\<lparr>environ := []\<rparr> \<and>
   calls (exec_model demo laptop) =
     [Init, LoadModel model_path, NewFrame [my_wine], SetColumns 0 column_names,
      Predict model_path 0, Print [''6'']] \<and>
   calls (exec_model demo no_java) = [Init] \<and>
   calls (exec_model demo laptop) \<noteq> calls (exec_model demo no_java)"
proof -
  have "no_java = laptop\<lparr>environ := []\<rparr>"
    by (rule no_java_def)
  moreover have "calls (exec_model demo laptop) =
     [Init, LoadModel model_path, NewFrame [my_wine], SetColumns 0 column_names,
      Predict model_path 0, Print [''6'']] \<and>
   calls (exec_model demo no_java) = [Init] \<and>
   calls (exec_model demo laptop) \<noteq> calls (exec_model demo no_java)"
    by (simp add: demo_laptop_run demo_no_java_run crash_def)
  ultimately show ?thesis by (rule conjI)
qed

text \<open>
  Claim C9, amended. The script itself reads no command-line argument, environment variable
  or configuration file: in every run \<open>load_model\<close> is invoked with the one hardcoded
  path and with nothing else, and the calls of every run are an initial segment of the same
  sequence with the same literal arguments. Two runs in backend states that the runtime
  cannot tell apart (for instance because they differ only in a command line that the
  runtime does not read) are equal: the same calls with the same arguments, the same
  output, the same exit.
\<close>

theorem script_reads_no_arguments:
  "(\<forall>pth. LoadModel pth \<in> set (calls (exec_model h2o w0)) \<longrightarrow>
      pth = ''mlruns/0/models/m-935ff251a94d41899ecbee172e66c5b8/artifacts/model.h2o/DRF_model_python_1751837466102_2'') \<and>
   (\<exists>m f p. prefix (calls (exec_model h2o w0))
      [Init, LoadModel model_path, NewFrame [my_wine], SetColumns f column_names,
       Predict m f, Print p]) \<and>
   (oblivious R h2o \<and> R w0 w0' \<longrightarrow> exec_model h2o w0 = exec_model h2o w0')"
proof -
  have "(\<forall>pth. LoadModel pth \<in> set (calls (exec_model h2o w0)) \<longrightarrow> pth = model_path) \<and>
    (\<exists>m f p. prefix (calls (exec_model h2o w0))
      [Init, LoadModel model_path, NewFrame [my_wine], SetColumns f column_names,
       Predict m f, Print p])"
    by (cases rule: exec_model_courses [where h2o = h2o and ?w0.0 = w0])
       (simp_all add: crash_def)
  moreover have "oblivious R h2o \<and> R w0 w0' \<longrightarrow> exec_model h2o w0 = exec_model h2o w0'"
    unfolding exec_model_def using exec_model_on_oblivious [of R h2o w0 w0'] by blast
  ultimately show ?thesis unfolding model_path_def by blast
qed

theorem script_reads_no_arguments_witness:
  "LoadModel model_path \<in> set (calls (exec_model demo laptop)) \<and>
   model_path = ''mlruns/0/models/m-935ff251a94d41899ecbee172e66c5b8/artifacts/model.h2o/DRF_model_python_1751837466102_2'' \<and>
   oblivious same_but_argv demo \<and> same_but_argv laptop verbose \<and>
   exec_model demo laptop = exec_model demo verbose"
proof -
  have called: "LoadModel model_path \<in> set (calls (exec_model demo laptop))"
    by (simp add: demo_laptop_run)
  have rel: "same_but_argv laptop verbose"
    by (simp add: same_but_argv_def verbose_def)
  from script_reads_no_arguments [where h2o = demo and ?w0.0 = laptop and R = same_but_argv
      and ?w0' = verbose] called rel oblivious_demo_argv
  show ?thesis by blast
qed

subsection \<open>The lengths of the literals\<close>

text \<open>
  Claim C10. The list of line 7 has exactly eleven elements, each an \<open>int\<close> or a \<open>float\<close>
  literal; the list of column names has exactly eleven names; the argument of
  \<open>H2OFrame\<close> is a list of one row, and the number of values of that row equals the number
  of names.
\<close>

theorem literal_lengths:
  "length my_wine = 11 \<and> length column_names = 11 \<and> length [my_wine] = 1 \<and>
   map length [my_wine] = [length column_names]"
  by (simp add: my_wine_def column_names_def)

end
